theory Spec2Isabelle
  imports
    Main
    "HOL-Library.Char_ord"
    "HOL-Library.List_Lexorder"
    "HOL-Library.Multiset"
    "HOL-Library.Sublist"
begin

section \<open>The sprite frame script: data model\<close>

text \<open>
  The script \<^verbatim>\<open>create_sprite_frames.py\<close> is embedded function by function. A Python
  \<^verbatim>\<open>str\<close> is a \<^typ>\<open>string\<close>; file names are compared character by character
  by their codes, a proper prefix being smaller, which is the order of
  \<^verbatim>\<open>HOL-Library.List_Lexorder\<close> over \<^verbatim>\<open>HOL-Library.Char_ord\<close>.

  What the script does to the outside is kept in a record of the world: the text
  written to standard output, the file system as far as the script can observe it (what
  \<^verbatim>\<open>os.listdir\<close> gives for a path: a listing, or the \<^verbatim>\<open>OSError\<close> it raises), the
  log of the \<^verbatim>\<open>os.listdir\<close> calls made, and the command line and the environment of
  the process. The file system is not changed by anybody else while a function runs.
\<close>

datatype os_error = FileNotFoundError | NotADirectoryError | PermissionError | OSError

record 'p world =
  stdout :: string
  filesystem :: \<open>'p \<Rightarrow> os_error + string list\<close>
  listdir_calls :: \<open>'p list\<close>
  argv :: \<open>string list\<close>
  environ :: \<open>(string \<times> string) list\<close>

text \<open>
  \<^verbatim>\<open>pathlib\<close> is not part of the repository. Its three operations the script uses are
  parameters of the model: the constructor \<^verbatim>\<open>Path(s)\<close>, the operator \<^verbatim>\<open>p / s\<close> and
  \<^verbatim>\<open>str(p)\<close>, which an f-string applies to a path. The path type \<^typ>\<open>'p\<close> is left open.
\<close>

record 'p pathlib =
  Path :: \<open>string \<Rightarrow> 'p\<close>
  joinpath :: \<open>'p \<Rightarrow> string \<Rightarrow> 'p\<close>
  path_str :: \<open>'p \<Rightarrow> string\<close>

text \<open>\<^verbatim>\<open>CREATURES\<close>: a dict keeps its insertion order, so it is the list of its items.\<close>

definition CREATURES :: \<open>(string \<times> string \<times> string) list\<close> where
  \<open>CREATURES =
    [(''guard_robot'', ''Guard Robot'', ''GUARD_ROBOT''),
     (''fire_pyrope'', ''Fire Pyrope'', ''FIRE_PYROPE''),
     (''illusionary_raccoon'', ''Illusionary Raccoon'', ''ILLUSIONARY_RACCOON''),
     (''ore_muncher'', ''Ore Muncher'', ''ORE_MUNCHER''),
     (''neon_bat'', ''Neon Bat'', ''NEON_BAT''),
     (''toy_trojan'', ''Toy Trojan'', ''TOY_TROJAN''),
     (''robo'', ''Robo'', ''ROBO''),
     (''froscola'', ''Froscola'', ''FROSCOLA''),
     (''grizzly'', ''Grizzly'', ''GRIZZLY''),
     (''blazin_sparkinstone_bugs'', ''Blazin' Sparkinstone Bugs'', ''BLAZIN_SPARKINSTONE_BUGS''),
     (''stoplight_ghost'', ''Stoplight Ghost'', ''STOPLIGHT_GHOST''),
     (''haunted_river_rock'', ''Haunted River Rock'', ''HAUNTED_RIVER_ROCK''),
     (''hedgehog'', ''Hedgehog'', ''HEDGEHOG''),
     (''delinquent_chick'', ''Delinquent Chick'', ''DELINQUENT_CHICK''),
     (''ooze_waste'', ''Ooze Waste'', ''OOZE_WASTE''),
     (''krip'', ''Krip'', ''KRIP''),
     (''grave_robber_hunting_dog'', ''Grave Robber's Hunting Dog'', ''GRAVE_ROBBER_HUNTING_DOG'')]\<close>

definition BASE_PATH :: \<open>'p pathlib \<Rightarrow> 'p\<close> where
  \<open>BASE_PATH pl =
    Path pl ''C:/Users/purem/OneDrive/Documents/new-game-project/assets/sprites/creatures''\<close>

subsection \<open>Built-ins of Python the script calls\<close>

text \<open>\<^verbatim>\<open>s.startswith(p)\<close>: the first \<^verbatim>\<open>len(p)\<close> characters of \<^verbatim>\<open>s\<close> are \<^verbatim>\<open>p\<close>.\<close>

definition startswith :: \<open>string \<Rightarrow> string \<Rightarrow> bool\<close> where
  \<open>startswith s p = (take (length p) s = p)\<close>

text \<open>
  \<^verbatim>\<open>sorted(xs)\<close> on a list of strings: ascending in the order of strings. Equal
  strings are the same value, so every sorting algorithm gives the same list.
\<close>

definition sorted_py :: \<open>string list \<Rightarrow> string list\<close> where
  \<open>sorted_py xs = sort xs\<close>

text \<open>\<^verbatim>\<open>sep.join(xs)\<close>.\<close>

fun join :: \<open>string \<Rightarrow> string list \<Rightarrow> string\<close> where
  \<open>join sep [] = []\<close>
| \<open>join sep [x] = x\<close>
| \<open>join sep (x # y # ys) = x @ sep @ join sep (y # ys)\<close>

text \<open>\<^verbatim>\<open>print(s)\<close> writes \<^verbatim>\<open>s\<close> and a newline to standard output.\<close>

definition print :: \<open>string \<Rightarrow> 'p world \<Rightarrow> 'p world\<close> where
  \<open>print s w = w\<lparr>stdout := stdout w @ s @ ''\<newline>''\<rparr>\<close>

text \<open>
  \<^verbatim>\<open>os.listdir(p)\<close> reads the file system: the call is logged, and it gives the
  listing of \<^verbatim>\<open>p\<close> or raises.
\<close>

definition os_listdir :: \<open>'p \<Rightarrow> 'p world \<Rightarrow> 'p world \<times> (os_error + string list)\<close> where
  \<open>os_listdir p w = (w\<lparr>listdir_calls := listdir_calls w @ [p]\<rparr>, filesystem w p)\<close>

section \<open>The functions of the script\<close>

text \<open>
  \<^verbatim>\<open>get_frames_from_folder\<close> lists the folder once for the stand frames, once for the
  move frames and, when there are no move frames, a third time for the chase frames. An
  exception of a listing leaves the function at once.
\<close>

definition get_frames_from_folder ::
  \<open>'p \<Rightarrow> 'p world \<Rightarrow> 'p world \<times> (os_error + string list \<times> string list)\<close> where
  \<open>get_frames_from_folder folder_path w =
    (case os_listdir folder_path w of
      (w1, Inl e) \<Rightarrow> (w1, Inl e)
    | (w1, Inr l1) \<Rightarrow>
        (let stand_frames = sorted_py [f \<leftarrow> l1. startswith f ''stand_''] in
         case os_listdir folder_path w1 of
           (w2, Inl e) \<Rightarrow> (w2, Inl e)
         | (w2, Inr l2) \<Rightarrow>
             (let move_frames = sorted_py [f \<leftarrow> l2. startswith f ''move_''] in
              if move_frames = [] then
                (case os_listdir folder_path w2 of
                  (w3, Inl e) \<Rightarrow> (w3, Inl e)
                | (w3, Inr l3) \<Rightarrow>
                    (w3, Inr (stand_frames, sorted_py [f \<leftarrow> l3. startswith f ''chase_''])))
              else (w2, Inr (stand_frames, move_frames)))))\<close>

subsection \<open>Building the resource text\<close>

text \<open>
  The f-string of one frame entry, and the five animation blocks that
  \<^verbatim>\<open>create_sprite_frames\<close> collects in its local list \<^verbatim>\<open>lines\<close>.
\<close>

definition frame_entry :: \<open>string \<Rightarrow> string \<Rightarrow> string\<close> where
  \<open>frame_entry folder_name frame =
    (let frame_path = ''res://assets/sprites/creatures/'' @ folder_name @ ''/'' @ frame in
     ''{\<newline>"duration": 1.0,\<newline>"texture": ExtResource("'' @ frame_path @ ''")\<newline>}'')\<close>

definition animation :: \<open>string \<Rightarrow> string list \<Rightarrow> string \<Rightarrow> string list\<close> where
  \<open>animation folder_name frames name =
    [''"frames": ['',
     join '',\<newline>'' (map (frame_entry folder_name) frames),
     ''],'',
     ''"loop": true,'',
     ''"name": &"'' @ name @ ''",'',
     ''"speed": 8.0'']\<close>

definition resource_lines :: \<open>string \<Rightarrow> string list \<Rightarrow> string list \<Rightarrow> string list\<close> where
  \<open>resource_lines folder_name stand_frames move_frames =
    (let idle_anim = animation folder_name stand_frames ''idle'';
         move_anim = animation folder_name move_frames ''walk'';
         animations_data =
           [''{\<newline>'' @ join ''\<newline>'' idle_anim @ ''\<newline>}''] @
           map (\<lambda>direction.
                 ''{\<newline>'' @ join ''\<newline>'' (animation folder_name move_frames direction) @ ''\<newline>}'')
               [''walk-down'', ''walk-left'', ''walk-right'', ''walk-up'']
     in [''[gd_resource type="SpriteFrames" format=3]'',
         '''',
         ''[resource]'',
         ''animations = [{'',
         join '',\<newline>'' animations_data,
         ''}]''])\<close>

text \<open>
  \<^verbatim>\<open>create_sprite_frames\<close>: the result is the resource text or \<^verbatim>\<open>None\<close>. The list
  \<^verbatim>\<open>lines\<close> is built and dropped: both \<^verbatim>\<open>return\<close> statements return \<^verbatim>\<open>None\<close>.
\<close>

definition create_sprite_frames ::
  \<open>'p pathlib \<Rightarrow> string \<Rightarrow> string \<Rightarrow> string \<Rightarrow> 'p world \<Rightarrow>
    'p world \<times> (os_error + string option)\<close> where
  \<open>create_sprite_frames pl folder_name display_name enum_name w =
    (let folder_path = joinpath pl (BASE_PATH pl) folder_name in
     case get_frames_from_folder folder_path w of
       (w1, Inl e) \<Rightarrow> (w1, Inl e)
     | (w1, Inr (stand_frames, move_frames)) \<Rightarrow>
         if stand_frames = [] \<or> move_frames = [] then
           (print (''Warning: Missing frames for '' @ folder_name) w1, Inr None)
         else
           (let lines = resource_lines folder_name stand_frames move_frames in
            (w1, Inr None)))\<close>

text \<open>The statements of the module's top level, run when the script runs.\<close>

definition creature_line :: \<open>'p pathlib \<Rightarrow> string \<times> string \<times> string \<Rightarrow> string\<close> where
  \<open>creature_line pl = (\<lambda>(folder, name, enum).
     ''  - '' @ name @ '' ('' @ enum @ ''): '' @ path_str pl (joinpath pl (BASE_PATH pl) folder))\<close>

definition main :: \<open>'p pathlib \<Rightarrow> 'p world \<Rightarrow> 'p world\<close> where
  \<open>main pl w =
    (let w1 = print ''Due to Godot's resource format complexity, SpriteFrames should be created in Godot editor.'' w;
         w2 = print ''However, we can still proceed by updating the global_enums.gd with placeholders.'' w1;
         w3 = print ''\<newline>Creatures to add:'' w2
     in foldl (\<lambda>w' item. print (creature_line pl item) w') w3 CREATURES)\<close>

section \<open>What the specification says, in its words\<close>

text \<open>
  ``Sorted lexicographically'': each name is below or equal to every later one,
  comparing character codes from the left, a proper prefix being smaller.
\<close>

fun str_le :: \<open>string \<Rightarrow> string \<Rightarrow> bool\<close> where
  \<open>str_le [] ys = True\<close>
| \<open>str_le (x # xs) [] = False\<close>
| \<open>str_le (x # xs) (y # ys) =
    ((of_char x :: nat) < of_char y \<or> (x = y \<and> str_le xs ys))\<close>

definition sorted_lexicographically :: \<open>string list \<Rightarrow> bool\<close> where
  \<open>sorted_lexicographically xs = sorted_wrt str_le xs\<close>

text \<open>``Exactly the filenames starting with'' a prefix, each as often as it is listed.\<close>

definition filenames_starting_with :: \<open>string \<Rightarrow> string list \<Rightarrow> string multiset\<close> where
  \<open>filenames_starting_with p listing = filter_mset (prefix p) (mset listing)\<close>

text \<open>
  The text one run of the script prints: two notices, an empty line and the header (the
  third \<^verbatim>\<open>print\<close> starts with a newline), then the list of the creatures and their
  source paths, one line for each item of the mapping.
\<close>

definition creature_list :: \<open>'p pathlib \<Rightarrow> string\<close> where
  \<open>creature_list pl =
    concat (map (\<lambda>(folder, display_name, enum_name).
      ''  - '' @ display_name @ '' ('' @ enum_name @ ''): '' @
      path_str pl (joinpath pl (BASE_PATH pl) folder) @ ''\<newline>'') CREATURES)\<close>

definition script_text :: \<open>'p pathlib \<Rightarrow> string\<close> where
  \<open>script_text pl =
    ''Due to Godot's resource format complexity, SpriteFrames should be created in Godot editor.\<newline>'' @
    ''However, we can still proceed by updating the global_enums.gd with placeholders.\<newline>'' @
    ''\<newline>Creatures to add:\<newline>'' @
    creature_list pl\<close>

text \<open>The text a run started in the world \<open>w\<close> adds to standard output.\<close>

definition printed_by_run :: \<open>'p pathlib \<Rightarrow> 'p world \<Rightarrow> string\<close> where
  \<open>printed_by_run pl w = drop (length (stdout w)) (stdout (main pl w))\<close>

text \<open>The warning of \<^verbatim>\<open>create_sprite_frames\<close> for a folder, as it appears on standard output.\<close>

definition warning_text :: \<open>string \<Rightarrow> string\<close> where
  \<open>warning_text folder_name = ''Warning: Missing frames for '' @ folder_name @ ''\<newline>''\<close>

section \<open>Sample inputs\<close>

text \<open>
  Paths as strings joined by a slash (what \<^verbatim>\<open>pathlib\<close> does on POSIX for a plain
  relative name), and a world whose every directory holds the three files of the
  specification's example.
\<close>

definition sample_pathlib :: \<open>string pathlib\<close> where
  \<open>sample_pathlib = \<lparr>Path = (\<lambda>s. s), joinpath = (\<lambda>p s. p @ ''/'' @ s), path_str = (\<lambda>p. p)\<rparr>\<close>

definition example_listing :: \<open>string list\<close> where
  \<open>example_listing = [''stand_1.png'', ''stand_0.png'', ''chase_a.png'']\<close>

definition example_world :: \<open>string world\<close> where
  \<open>example_world =
    \<lparr>stdout = [], filesystem = (\<lambda>p. Inr example_listing), listdir_calls = [],
     argv = [], environ = []\<rparr>\<close>

text \<open>
  Worlds whose every directory is empty, cannot be listed, holds stand and move frames,
  or holds move frames only.
\<close>

definition empty_dirs_world :: \<open>string world\<close> where
  \<open>empty_dirs_world =
    \<lparr>stdout = [], filesystem = (\<lambda>p. Inr []), listdir_calls = [], argv = [], environ = []\<rparr>\<close>

definition missing_dirs_world :: \<open>string world\<close> where
  \<open>missing_dirs_world =
    \<lparr>stdout = [], filesystem = (\<lambda>p. Inl FileNotFoundError), listdir_calls = [],
     argv = [], environ = []\<rparr>\<close>

definition frames_world :: \<open>string world\<close> where
  \<open>frames_world =
    \<lparr>stdout = [], filesystem = (\<lambda>p. Inr [''stand_0.png'', ''move_1.png'', ''move_0.png'']),
     listdir_calls = [], argv = [], environ = []\<rparr>\<close>

definition moves_only_world :: \<open>string world\<close> where
  \<open>moves_only_world =
    \<lparr>stdout = [], filesystem = (\<lambda>p. Inr [''move_0.png'', ''readme.txt'']),
     listdir_calls = [], argv = [], environ = []\<rparr>\<close>

definition sample_dir :: \<open>string \<Rightarrow> string\<close> where
  \<open>sample_dir folder = joinpath sample_pathlib (BASE_PATH sample_pathlib) folder\<close>



section \<open>Lemmas on the built-ins\<close>

lemma startswith_prefix: \<open>startswith s p \<longleftrightarrow> prefix p s\<close>
  unfolding startswith_def prefix_def
  by (metis append_eq_conv_conj append_take_drop_id)

lemma str_le_iff: \<open>str_le a b \<longleftrightarrow> a \<le> b\<close>
  by (induction a b rule: str_le.induct) (auto simp: less_char_def)

lemma sorted_lexicographically_sorted_py: \<open>sorted_lexicographically (sorted_py xs)\<close>
proof -
  have \<open>str_le = (\<le>)\<close>
    by (intro ext) (simp add: str_le_iff)
  then show ?thesis
    by (simp add: sorted_lexicographically_def sorted_py_def)
qed

lemma mset_sorted_py_filter:
  \<open>mset (sorted_py [f \<leftarrow> l. startswith f p]) = filenames_starting_with p l\<close>
proof -
  have \<open>(\<lambda>f. startswith f p) = prefix p\<close>
    by (intro ext) (simp add: startswith_prefix)
  then show ?thesis
    by (simp add: sorted_py_def filenames_starting_with_def)
qed

lemma sorted_py_empty_iff:
  \<open>sorted_py [f \<leftarrow> l. startswith f p] = [] \<longleftrightarrow> filenames_starting_with p l = {#}\<close>
  using mset_sorted_py_filter [where l = l and p = p] by (metis mset_zero_iff)

lemma get_frames_from_folder_ok:
  assumes \<open>filesystem w p = Inr l\<close>
  shows \<open>get_frames_from_folder p w =
    (w\<lparr>listdir_calls := listdir_calls w @
         (if sorted_py [f \<leftarrow> l. startswith f ''move_''] = [] then [p, p, p] else [p, p])\<rparr>,
     Inr (sorted_py [f \<leftarrow> l. startswith f ''stand_''],
          if sorted_py [f \<leftarrow> l. startswith f ''move_''] = []
          then sorted_py [f \<leftarrow> l. startswith f ''chase_'']
          else sorted_py [f \<leftarrow> l. startswith f ''move_'']))\<close>
  using assms by (simp add: get_frames_from_folder_def os_listdir_def Let_def)

lemma get_frames_from_folder_listed:
  assumes \<open>filesystem w p = Inr l\<close>
  shows \<open>snd (get_frames_from_folder p w) =
    Inr (sorted_py [f \<leftarrow> l. startswith f ''stand_''],
         if sorted_py [f \<leftarrow> l. startswith f ''move_''] = []
         then sorted_py [f \<leftarrow> l. startswith f ''chase_'']
         else sorted_py [f \<leftarrow> l. startswith f ''move_''])\<close>
  by (simp only: get_frames_from_folder_ok [OF assms] snd_conv)

lemma get_frames_from_folder_raises:
  assumes \<open>filesystem w p = Inl e\<close>
  shows \<open>get_frames_from_folder p w = (w\<lparr>listdir_calls := listdir_calls w @ [p]\<rparr>, Inl e)\<close>
  using assms by (simp add: get_frames_from_folder_def os_listdir_def)

lemma get_frames_from_folder_calls:
  \<open>listdir_calls (fst (get_frames_from_folder p w)) =
    listdir_calls w @
      (case filesystem w p of
        Inl e \<Rightarrow> [p]
      | Inr l \<Rightarrow>
          if sorted_py [f \<leftarrow> l. startswith f ''move_''] = [] then [p, p, p] else [p, p])\<close>
proof (cases \<open>filesystem w p\<close>)
  case (Inl e)
  then show ?thesis
    by (simp add: get_frames_from_folder_raises)
next
  case (Inr l)
  then show ?thesis
    by (simp add: get_frames_from_folder_ok)
qed

lemma get_frames_from_folder_frame:
  \<open>stdout (fst (get_frames_from_folder p w)) = stdout w \<and>
   filesystem (fst (get_frames_from_folder p w)) = filesystem w\<close>
proof (cases \<open>filesystem w p\<close>)
  case (Inl e)
  then show ?thesis
    by (simp add: get_frames_from_folder_raises)
next
  case (Inr l)
  then show ?thesis
    by (simp add: get_frames_from_folder_ok)
qed

lemma create_sprite_frames_missing:
  assumes \<open>get_frames_from_folder (joinpath pl (BASE_PATH pl) folder_name) w =
      (w1, Inr (stand, move))\<close>
    and \<open>stand = [] \<or> move = []\<close>
  shows \<open>create_sprite_frames pl folder_name display_name enum_name w =
    (w1\<lparr>stdout := stdout w1 @ warning_text folder_name\<rparr>, Inr None)\<close>
  using assms
  by (auto simp add: create_sprite_frames_def Let_def print_def warning_text_def)

lemma create_sprite_frames_complete:
  assumes \<open>get_frames_from_folder (joinpath pl (BASE_PATH pl) folder_name) w =
      (w1, Inr (stand, move))\<close>
    and \<open>stand \<noteq> []\<close> and \<open>move \<noteq> []\<close>
  shows \<open>create_sprite_frames pl folder_name display_name enum_name w = (w1, Inr None)\<close>
  using assms by (simp add: create_sprite_frames_def Let_def)

lemma create_sprite_frames_raises:
  assumes \<open>filesystem w (joinpath pl (BASE_PATH pl) folder_name) = Inl e\<close>
  shows \<open>create_sprite_frames pl folder_name display_name enum_name w =
    (w\<lparr>listdir_calls := listdir_calls w @ [joinpath pl (BASE_PATH pl) folder_name]\<rparr>, Inl e)\<close>
  by (simp add: create_sprite_frames_def Let_def get_frames_from_folder_raises [OF assms])

lemma create_sprite_frames_result:
  \<open>snd (create_sprite_frames pl folder_name display_name enum_name w) =
    (case filesystem w (joinpath pl (BASE_PATH pl) folder_name) of
      Inl e \<Rightarrow> Inl e | Inr l \<Rightarrow> Inr None)\<close>
proof (cases \<open>filesystem w (joinpath pl (BASE_PATH pl) folder_name)\<close>)
  case (Inl e)
  then show ?thesis
    by (simp add: create_sprite_frames_raises)
next
  case (Inr l)
  then show ?thesis
    by (simp add: create_sprite_frames_def Let_def get_frames_from_folder_ok)
qed

lemma create_sprite_frames_calls:
  \<open>listdir_calls (fst (create_sprite_frames pl folder_name display_name enum_name w)) =
    listdir_calls (fst (get_frames_from_folder (joinpath pl (BASE_PATH pl) folder_name) w))\<close>
  by (simp add: create_sprite_frames_def Let_def print_def split: prod.splits sum.splits)

lemma create_sprite_frames_filesystem:
  \<open>filesystem (fst (create_sprite_frames pl folder_name display_name enum_name w)) =
    filesystem w\<close>
proof -
  have \<open>filesystem (fst (create_sprite_frames pl folder_name display_name enum_name w)) =
    filesystem (fst (get_frames_from_folder (joinpath pl (BASE_PATH pl) folder_name) w))\<close>
    by (simp add: create_sprite_frames_def Let_def print_def split: prod.splits sum.splits)
  then show ?thesis
    by (simp only: get_frames_from_folder_frame)
qed

subsection \<open>The top level\<close>

lemma foldl_print:
  \<open>foldl (\<lambda>w' item. print (g item) w') w xs =
    w\<lparr>stdout := stdout w @ concat (map (\<lambda>item. g item @ ''\<newline>'') xs)\<rparr>\<close>
  by (induction xs arbitrary: w) (simp_all add: print_def)

lemma creature_list_lines:
  \<open>creature_list pl = concat (map (\<lambda>item. creature_line pl item @ ''\<newline>'') CREATURES)\<close>
proof -
  have \<open>(\<lambda>(folder, display_name, enum_name).
      ''  - '' @ display_name @ '' ('' @ enum_name @ ''): '' @
      path_str pl (joinpath pl (BASE_PATH pl) folder) @ ''\<newline>'') =
    (\<lambda>item. creature_line pl item @ ''\<newline>'')\<close>
    by (intro ext) (simp add: creature_line_def split: prod.splits)
  then show ?thesis
    by (simp only: creature_list_def)
qed

lemma main_eq: \<open>main pl w = w\<lparr>stdout := stdout w @ script_text pl\<rparr>\<close>
proof -
  let ?n1 = \<open>''Due to Godot's resource format complexity, SpriteFrames should be created in Godot editor.''\<close>
  let ?n2 = \<open>''However, we can still proceed by updating the global_enums.gd with placeholders.''\<close>
  let ?n3 = \<open>''\<newline>Creatures to add:''\<close>
  have \<open>main pl w =
    foldl (\<lambda>w' item. print (creature_line pl item) w') (print ?n3 (print ?n2 (print ?n1 w)))
      CREATURES\<close>
    by (simp only: main_def Let_def)
  also have \<open>\<dots> = (print ?n3 (print ?n2 (print ?n1 w)))
      \<lparr>stdout := stdout (print ?n3 (print ?n2 (print ?n1 w))) @ creature_list pl\<rparr>\<close>
    by (simp only: foldl_print creature_list_lines)
  also have \<open>\<dots> = w\<lparr>stdout := stdout w @ script_text pl\<rparr>\<close>
    by (simp add: print_def script_text_def)
  finally show ?thesis .
qed

lemma printed_by_run_eq: \<open>printed_by_run pl w = script_text pl\<close>
  by (simp add: printed_by_run_def main_eq)

lemma create_sprite_frames_stdout:
  assumes \<open>filesystem w (joinpath pl (BASE_PATH pl) folder_name) = Inr l\<close>
  shows \<open>stdout (fst (create_sprite_frames pl folder_name display_name enum_name w)) =
    (if sorted_py [f \<leftarrow> l. startswith f ''stand_''] = [] \<or>
        (sorted_py [f \<leftarrow> l. startswith f ''move_''] = [] \<and>
         sorted_py [f \<leftarrow> l. startswith f ''chase_''] = [])
     then stdout w @ warning_text folder_name else stdout w)\<close>
  by (simp add: create_sprite_frames_def Let_def get_frames_from_folder_ok [OF assms]
      print_def warning_text_def)

lemma sorted_py_filter_empty:
  \<open>sorted_py [f \<leftarrow> l. startswith f p] = [] \<longleftrightarrow> (\<forall>f \<in> set l. \<not> startswith f p)\<close>
proof -
  have \<open>sort xs = [] \<longleftrightarrow> xs = []\<close> for xs :: \<open>string list\<close>
    by (metis length_sort length_0_conv)
  then show ?thesis
    by (simp add: sorted_py_def filter_empty_conv)
qed

lemma set_sorted_py_filter:
  \<open>set (sorted_py [f \<leftarrow> l. startswith f p]) = {f \<in> set l. startswith f p}\<close>
  by (simp add: sorted_py_def)

lemma stand_not_move: \<open>startswith f ''stand_'' \<Longrightarrow> \<not> startswith f ''move_''\<close>
  by (cases f) (simp_all add: startswith_def)

lemma stand_not_chase: \<open>startswith f ''stand_'' \<Longrightarrow> \<not> startswith f ''chase_''\<close>
  by (cases f) (simp_all add: startswith_def)









section \<open>The frame partitioning rule\<close>

text \<open>
  Claim C1. For every directory listing given to \<^verbatim>\<open>get_frames_from_folder\<close>, the
  returned stand list is exactly the filenames starting with \<^verbatim>\<open>stand_\<close>, sorted
  lexicographically; the returned move list is exactly the filenames starting with
  \<^verbatim>\<open>move_\<close>, sorted lexicographically, and when there is none of these it is exactly
  the filenames starting with \<^verbatim>\<open>chase_\<close>, sorted lexicographically.
\<close>

theorem get_frames_from_folder_partition:
  assumes \<open>filesystem w p = Inr listing\<close>
  shows \<open>\<exists>stand move.
    snd (get_frames_from_folder p w) = Inr (stand, move) \<and>
    sorted_lexicographically stand \<and>
    mset stand = filenames_starting_with ''stand_'' listing \<and>
    sorted_lexicographically move \<and>
    mset move =
      (if filenames_starting_with ''move_'' listing = {#}
       then filenames_starting_with ''chase_'' listing
       else filenames_starting_with ''move_'' listing)\<close>
proof (cases \<open>filenames_starting_with ''move_'' listing = {#}\<close>)
  case True
  then have \<open>sorted_py [f \<leftarrow> listing. startswith f ''move_''] = []\<close>
    by (simp only: sorted_py_empty_iff)
  with assms True show ?thesis
    by (simp only: get_frames_from_folder_listed if_True)
       (simp add: sorted_lexicographically_sorted_py mset_sorted_py_filter)
next
  case False
  then have \<open>sorted_py [f \<leftarrow> listing. startswith f ''move_''] \<noteq> []\<close>
    by (simp only: sorted_py_empty_iff not_False_eq_True)
  with assms False show ?thesis
    by (simp only: get_frames_from_folder_listed if_False)
       (simp add: sorted_lexicographically_sorted_py mset_sorted_py_filter)
qed

theorem get_frames_from_folder_partition_witness:
  \<open>filesystem example_world ''d'' = Inr example_listing \<and>
   (\<exists>stand move.
     snd (get_frames_from_folder ''d'' example_world) = Inr (stand, move) \<and>
     sorted_lexicographically stand \<and>
     mset stand = filenames_starting_with ''stand_'' example_listing \<and>
     sorted_lexicographically move \<and>
     mset move =
       (if filenames_starting_with ''move_'' example_listing = {#}
        then filenames_starting_with ''chase_'' example_listing
        else filenames_starting_with ''move_'' example_listing))\<close>
proof -
  have h: \<open>filesystem example_world ''d'' = Inr example_listing\<close>
    by (simp add: example_world_def)
  from get_frames_from_folder_partition [OF h] h show ?thesis
    by blast
qed

section \<open>Failures of the directory listing\<close>



section \<open>Missing frames\<close>

text \<open>
  Claim C2. When the folder of a creature yields an empty stand list or an empty move
  list (after the fallback to the chase frames), \<^verbatim>\<open>create_sprite_frames\<close> prints the
  warning that names the folder, and nothing else, and returns \<^verbatim>\<open>None\<close> without
  raising. Nobody consumes that result: a call of the function always leaves a listing
  in the log of \<^verbatim>\<open>os.listdir\<close> calls, and a run of the script leaves none.
\<close>

theorem create_sprite_frames_missing_frames:
  assumes \<open>get_frames_from_folder (joinpath pl (BASE_PATH pl) folder_name) w =
      (w1, Inr (stand_frames, move_frames))\<close>
    and \<open>stand_frames = [] \<or> move_frames = []\<close>
  shows \<open>create_sprite_frames pl folder_name display_name enum_name w =
      (w1\<lparr>stdout := stdout w @ ''Warning: Missing frames for '' @ folder_name @ ''\<newline>''\<rparr>,
       Inr None) \<and>
    listdir_calls (fst (create_sprite_frames pl folder_name display_name enum_name w)) \<noteq>
      listdir_calls w \<and>
    listdir_calls (main pl w') = listdir_calls w'\<close>
proof -
  have \<open>stdout w1 = stdout w\<close>
    using get_frames_from_folder_frame [of \<open>joinpath pl (BASE_PATH pl) folder_name\<close> w] assms(1)
    by simp
  then have \<open>create_sprite_frames pl folder_name display_name enum_name w =
      (w1\<lparr>stdout := stdout w @ ''Warning: Missing frames for '' @ folder_name @ ''\<newline>''\<rparr>,
       Inr None)\<close>
    by (simp add: create_sprite_frames_missing [OF assms] warning_text_def)
  moreover have
    \<open>listdir_calls (fst (create_sprite_frames pl folder_name display_name enum_name w)) \<noteq>
      listdir_calls w\<close>
    by (simp add: create_sprite_frames_calls get_frames_from_folder_calls split: sum.splits)
  moreover have \<open>listdir_calls (main pl w') = listdir_calls w'\<close>
    by (simp add: main_eq)
  ultimately show ?thesis
    by (simp only: simp_thms)
qed

theorem create_sprite_frames_missing_frames_witness:
  \<open>get_frames_from_folder (joinpath sample_pathlib (BASE_PATH sample_pathlib) ''grizzly'')
      moves_only_world =
     (moves_only_world\<lparr>listdir_calls := [sample_dir ''grizzly'', sample_dir ''grizzly'']\<rparr>,
      Inr ([], [''move_0.png''])) \<and>
   create_sprite_frames sample_pathlib ''grizzly'' ''Grizzly'' ''GRIZZLY'' moves_only_world =
     (moves_only_world
        \<lparr>listdir_calls := [sample_dir ''grizzly'', sample_dir ''grizzly''],
         stdout := ''Warning: Missing frames for grizzly\<newline>''\<rparr>,
      Inr None)\<close>
proof -
  have g: \<open>get_frames_from_folder (joinpath sample_pathlib (BASE_PATH sample_pathlib) ''grizzly'')
      moves_only_world =
     (moves_only_world\<lparr>listdir_calls := [sample_dir ''grizzly'', sample_dir ''grizzly'']\<rparr>,
      Inr ([], [''move_0.png'']))\<close>
    by (simp add: get_frames_from_folder_def os_listdir_def moves_only_world_def Let_def
        sorted_py_def startswith_def sample_dir_def)
  have e: \<open>([] :: string list) = [] \<or> [''move_0.png''] = []\<close>
    by simp
  from create_sprite_frames_missing_frames [OF g e, of \<open>''Grizzly''\<close> \<open>''GRIZZLY''\<close>] g
  show ?thesis
    by (simp add: moves_only_world_def)
qed

section \<open>The result of the resource builder\<close>

text \<open>
  Claim C3. For every folder name, display name and enum name and for every contents of
  the directory, also when there are stand frames and move frames,
  \<^verbatim>\<open>create_sprite_frames\<close> returns \<^verbatim>\<open>None\<close>: it never returns a resource text, and
  it leaves the file system as it found it.
\<close>

theorem create_sprite_frames_returns_None:
  \<open>snd (create_sprite_frames pl folder_name display_name enum_name w) \<noteq> Inr (Some text) \<and>
   (filesystem w (joinpath pl (BASE_PATH pl) folder_name) = Inr listing \<longrightarrow>
      snd (create_sprite_frames pl folder_name display_name enum_name w) = Inr None) \<and>
   filesystem (fst (create_sprite_frames pl folder_name display_name enum_name w)) =
     filesystem w\<close>
  by (simp add: create_sprite_frames_result create_sprite_frames_filesystem split: sum.splits)

theorem create_sprite_frames_returns_None_witness:
  \<open>filesystem frames_world (joinpath sample_pathlib (BASE_PATH sample_pathlib) ''robo'') =
     Inr [''stand_0.png'', ''move_1.png'', ''move_0.png''] \<and>
   snd (get_frames_from_folder (joinpath sample_pathlib (BASE_PATH sample_pathlib) ''robo'')
     frames_world) = Inr ([''stand_0.png''], [''move_0.png'', ''move_1.png'']) \<and>
   snd (create_sprite_frames sample_pathlib ''robo'' ''Robo'' ''ROBO'' frames_world) = Inr None\<close>
proof -
  have h: \<open>filesystem frames_world (joinpath sample_pathlib (BASE_PATH sample_pathlib) ''robo'') =
     Inr [''stand_0.png'', ''move_1.png'', ''move_0.png'']\<close>
    by (simp add: frames_world_def)
  have g: \<open>snd (get_frames_from_folder (joinpath sample_pathlib (BASE_PATH sample_pathlib) ''robo'')
     frames_world) = Inr ([''stand_0.png''], [''move_0.png'', ''move_1.png''])\<close>
    by (simp add: get_frames_from_folder_listed [OF h] sorted_py_def startswith_def)
  from create_sprite_frames_returns_None
    [of sample_pathlib \<open>''robo''\<close> \<open>''Robo''\<close> \<open>''ROBO''\<close> frames_world \<open>''''\<close>
      \<open>[''stand_0.png'', ''move_1.png'', ''move_0.png'']\<close>]
  show ?thesis
    using h g by simp
qed

section \<open>The example of the specification\<close>

text \<open>
  Claim C7. For the listing \<^verbatim>\<open>stand_1.png\<close>, \<^verbatim>\<open>stand_0.png\<close>, \<^verbatim>\<open>chase_a.png\<close>,
  \<^verbatim>\<open>get_frames_from_folder\<close> returns the stand list \<^verbatim>\<open>stand_0.png\<close>,
  \<^verbatim>\<open>stand_1.png\<close> and the move list \<^verbatim>\<open>chase_a.png\<close>, which comes from the fallback
  (the third listing of the folder). For a listing with no name starting with
  \<^verbatim>\<open>stand_\<close>, whatever else it holds, \<^verbatim>\<open>create_sprite_frames\<close> prints the warning
  and returns \<^verbatim>\<open>None\<close>.
\<close>

theorem example_listing_and_no_stand_frames:
  \<open>(filesystem w p = Inr [''stand_1.png'', ''stand_0.png'', ''chase_a.png''] \<longrightarrow>
      get_frames_from_folder p w =
        (w\<lparr>listdir_calls := listdir_calls w @ [p, p, p]\<rparr>,
         Inr ([''stand_0.png'', ''stand_1.png''], [''chase_a.png'']))) \<and>
   (filesystem w' (joinpath pl (BASE_PATH pl) folder_name) = Inr listing \<and>
    (\<forall>f \<in> set listing. \<not> startswith f ''stand_'') \<longrightarrow>
      snd (create_sprite_frames pl folder_name display_name enum_name w') = Inr None \<and>
      stdout (fst (create_sprite_frames pl folder_name display_name enum_name w')) =
        stdout w' @ ''Warning: Missing frames for '' @ folder_name @ ''\<newline>'')\<close>
proof -
  have \<open>get_frames_from_folder p w =
        (w\<lparr>listdir_calls := listdir_calls w @ [p, p, p]\<rparr>,
         Inr ([''stand_0.png'', ''stand_1.png''], [''chase_a.png'']))\<close>
    if \<open>filesystem w p = Inr [''stand_1.png'', ''stand_0.png'', ''chase_a.png'']\<close>
    by (simp add: get_frames_from_folder_ok [OF that] sorted_py_def startswith_def)
  moreover have \<open>snd (create_sprite_frames pl folder_name display_name enum_name w') = Inr None \<and>
      stdout (fst (create_sprite_frames pl folder_name display_name enum_name w')) =
        stdout w' @ ''Warning: Missing frames for '' @ folder_name @ ''\<newline>''\<close>
    if l: \<open>filesystem w' (joinpath pl (BASE_PATH pl) folder_name) = Inr listing\<close>
      and n: \<open>\<forall>f \<in> set listing. \<not> startswith f ''stand_''\<close>
  proof -
    from n have \<open>sorted_py [f \<leftarrow> listing. startswith f ''stand_''] = []\<close>
      by (simp only: sorted_py_filter_empty)
    then show ?thesis
      by (simp add: create_sprite_frames_result create_sprite_frames_stdout [OF l] l
          warning_text_def)
  qed
  ultimately show ?thesis
    by blast
qed

theorem example_listing_and_no_stand_frames_witness:
  \<open>filesystem example_world ''d'' = Inr [''stand_1.png'', ''stand_0.png'', ''chase_a.png''] \<and>
   snd (get_frames_from_folder ''d'' example_world) =
     Inr ([''stand_0.png'', ''stand_1.png''], [''chase_a.png'']) \<and>
   filesystem moves_only_world (joinpath sample_pathlib (BASE_PATH sample_pathlib) ''krip'') =
     Inr [''move_0.png'', ''readme.txt''] \<and>
   \<not> startswith ''move_0.png'' ''stand_'' \<and> \<not> startswith ''readme.txt'' ''stand_'' \<and>
   snd (create_sprite_frames sample_pathlib ''krip'' ''Krip'' ''KRIP'' moves_only_world) = Inr None \<and>
   stdout (fst (create_sprite_frames sample_pathlib ''krip'' ''Krip'' ''KRIP'' moves_only_world)) =
     ''Warning: Missing frames for krip\<newline>''\<close>
proof -
  have h1: \<open>filesystem example_world ''d'' = Inr [''stand_1.png'', ''stand_0.png'', ''chase_a.png'']\<close>
    by (simp add: example_world_def example_listing_def)
  have h2: \<open>filesystem moves_only_world (joinpath sample_pathlib (BASE_PATH sample_pathlib) ''krip'') =
     Inr [''move_0.png'', ''readme.txt'']\<close>
    by (simp add: moves_only_world_def)
  have h3: \<open>\<forall>f \<in> set [''move_0.png'', ''readme.txt'']. \<not> startswith f ''stand_''\<close>
    by (simp add: startswith_def)
  have s: \<open>stdout moves_only_world = []\<close>
    by (simp add: moves_only_world_def)
  from example_listing_and_no_stand_frames
    [of example_world \<open>''d''\<close> moves_only_world sample_pathlib \<open>''krip''\<close>
      \<open>[''move_0.png'', ''readme.txt'']\<close> \<open>''Krip''\<close> \<open>''KRIP''\<close>]
  show ?thesis
    using h1 h2 h3 s by (simp add: startswith_def)
qed

section \<open>The two lists do not overlap\<close>

text \<open>
  Claim C9. The two lists that \<^verbatim>\<open>get_frames_from_folder\<close> returns are disjoint:
  every name of the stand list starts with \<^verbatim>\<open>stand_\<close>; every name of the move list
  starts with \<^verbatim>\<open>move_\<close> or, only when no listed name starts with \<^verbatim>\<open>move_\<close>, every
  name of the move list starts with \<^verbatim>\<open>chase_\<close>; and no name is in both lists.
\<close>

theorem get_frames_from_folder_disjoint:
  assumes \<open>filesystem w p = Inr listing\<close>
    and \<open>snd (get_frames_from_folder p w) = Inr (stand, move)\<close>
  shows \<open>(\<forall>f \<in> set stand. startswith f ''stand_'') \<and>
    ((\<forall>f \<in> set move. startswith f ''move_'') \<or>
     ((\<forall>f \<in> set listing. \<not> startswith f ''move_'') \<and>
      (\<forall>f \<in> set move. startswith f ''chase_''))) \<and>
    set stand \<inter> set move = {}\<close>
proof -
  from assms have stand: \<open>stand = sorted_py [f \<leftarrow> listing. startswith f ''stand_'']\<close>
    and move: \<open>move =
      (if sorted_py [f \<leftarrow> listing. startswith f ''move_''] = []
       then sorted_py [f \<leftarrow> listing. startswith f ''chase_'']
       else sorted_py [f \<leftarrow> listing. startswith f ''move_''])\<close>
    by (simp_all add: get_frames_from_folder_listed)
  have s: \<open>\<forall>f \<in> set stand. startswith f ''stand_''\<close>
    by (simp add: stand set_sorted_py_filter)
  have m: \<open>(\<forall>f \<in> set move. startswith f ''move_'') \<or>
     ((\<forall>f \<in> set listing. \<not> startswith f ''move_'') \<and>
      (\<forall>f \<in> set move. startswith f ''chase_''))\<close>
  proof (cases \<open>sorted_py [f \<leftarrow> listing. startswith f ''move_''] = []\<close>)
    case True
    then have \<open>\<forall>f \<in> set listing. \<not> startswith f ''move_''\<close>
      by (simp only: sorted_py_filter_empty)
    moreover from True have \<open>\<forall>f \<in> set move. startswith f ''chase_''\<close>
      by (simp add: move set_sorted_py_filter)
    ultimately show ?thesis
      by blast
  next
    case False
    then have \<open>\<forall>f \<in> set move. startswith f ''move_''\<close>
      by (simp add: move set_sorted_py_filter)
    then show ?thesis
      by blast
  qed
  have \<open>set stand \<inter> set move = {}\<close>
  proof (rule ccontr)
    assume \<open>set stand \<inter> set move \<noteq> {}\<close>
    then obtain f where f: \<open>f \<in> set stand\<close> \<open>f \<in> set move\<close>
      by blast
    from s f(1) have \<open>startswith f ''stand_''\<close>
      by blast
    then have \<open>\<not> startswith f ''move_''\<close> \<open>\<not> startswith f ''chase_''\<close>
      by (simp_all add: stand_not_move stand_not_chase)
    with m f(2) show False
      by blast
  qed
  with s m show ?thesis
    by blast
qed

theorem get_frames_from_folder_disjoint_witness:
  \<open>filesystem example_world ''d'' = Inr example_listing \<and>
   snd (get_frames_from_folder ''d'' example_world) =
     Inr ([''stand_0.png'', ''stand_1.png''], [''chase_a.png'']) \<and>
   startswith ''stand_0.png'' ''stand_'' \<and> startswith ''stand_1.png'' ''stand_'' \<and>
   \<not> startswith ''stand_1.png'' ''move_'' \<and> \<not> startswith ''stand_0.png'' ''move_'' \<and>
   \<not> startswith ''chase_a.png'' ''move_'' \<and> startswith ''chase_a.png'' ''chase_'' \<and>
   set [''stand_0.png'', ''stand_1.png''] \<inter> set [''chase_a.png''] = {}\<close>
proof -
  have h: \<open>filesystem example_world ''d'' = Inr example_listing\<close>
    by (simp add: example_world_def)
  have g: \<open>snd (get_frames_from_folder ''d'' example_world) =
     Inr ([''stand_0.png'', ''stand_1.png''], [''chase_a.png''])\<close>
    by (simp add: get_frames_from_folder_listed [OF h] example_listing_def sorted_py_def
        startswith_def)
  from get_frames_from_folder_disjoint [OF h g] h g show ?thesis
    by (simp add: example_listing_def startswith_def)
qed

section \<open>A run of the script\<close>

text \<open>
  Claim C10. A run prints the two notices, then (after the empty line that the third
  \<^verbatim>\<open>print\<close> starts with) the header \<^verbatim>\<open>Creatures to add:\<close>, then one line for each
  of the 17 items of \<^verbatim>\<open>CREATURES\<close>, in the order of the mapping, formatted as
  \<^verbatim>\<open>  - {display_name} ({enum_name}): {BASE_PATH / folder}\<close>. Neither
  \<^verbatim>\<open>get_frames_from_folder\<close> nor \<^verbatim>\<open>create_sprite_frames\<close> is called: each call of
  either leaves a listing in the log of \<^verbatim>\<open>os.listdir\<close> calls, and the run leaves none.
\<close>

theorem main_prints_creature_lines:
  \<open>stdout (main pl w) =
     stdout w @
     ''Due to Godot's resource format complexity, SpriteFrames should be created in Godot editor.\<newline>'' @
     ''However, we can still proceed by updating the global_enums.gd with placeholders.\<newline>'' @
     ''\<newline>Creatures to add:\<newline>'' @
     concat (map (\<lambda>(folder, display_name, enum_name).
       ''  - '' @ display_name @ '' ('' @ enum_name @ ''): '' @
       path_str pl (joinpath pl (BASE_PATH pl) folder) @ ''\<newline>'') CREATURES) \<and>
   length CREATURES = 17 \<and>
   listdir_calls (main pl w) = listdir_calls w \<and>
   listdir_calls (fst (get_frames_from_folder p w')) \<noteq> listdir_calls w' \<and>
   listdir_calls (fst (create_sprite_frames pl folder_name display_name enum_name w')) \<noteq>
     listdir_calls w'\<close>
proof -
  have \<open>stdout (main pl w) = stdout w @ script_text pl\<close>
    by (simp add: main_eq)
  moreover have \<open>length CREATURES = 17\<close>
    by (simp add: CREATURES_def)
  moreover have \<open>listdir_calls (main pl w) = listdir_calls w\<close>
    by (simp add: main_eq)
  moreover have \<open>listdir_calls (fst (get_frames_from_folder p w')) \<noteq> listdir_calls w'\<close>
    by (simp add: get_frames_from_folder_calls split: sum.splits)
  moreover have
    \<open>listdir_calls (fst (create_sprite_frames pl folder_name display_name enum_name w')) \<noteq>
      listdir_calls w'\<close>
    by (simp add: create_sprite_frames_calls get_frames_from_folder_calls split: sum.splits)
  ultimately show ?thesis
    by (simp only: script_text_def creature_list_def simp_thms)
qed

theorem main_prints_creature_lines_witness:
  \<open>stdout (main sample_pathlib empty_dirs_world) =
     ''Due to Godot's resource format complexity, SpriteFrames should be created in Godot editor.\<newline>'' @
     ''However, we can still proceed by updating the global_enums.gd with placeholders.\<newline>'' @
     ''\<newline>'' @
     ''Creatures to add:\<newline>'' @
     ''  - Guard Robot (GUARD_ROBOT): C:/Users/purem/OneDrive/Documents/new-game-project/assets/sprites/creatures/guard_robot\<newline>'' @
     ''  - Fire Pyrope (FIRE_PYROPE): C:/Users/purem/OneDrive/Documents/new-game-project/assets/sprites/creatures/fire_pyrope\<newline>'' @
     ''  - Illusionary Raccoon (ILLUSIONARY_RACCOON): C:/Users/purem/OneDrive/Documents/new-game-project/assets/sprites/creatures/illusionary_raccoon\<newline>'' @
     ''  - Ore Muncher (ORE_MUNCHER): C:/Users/purem/OneDrive/Documents/new-game-project/assets/sprites/creatures/ore_muncher\<newline>'' @
     ''  - Neon Bat (NEON_BAT): C:/Users/purem/OneDrive/Documents/new-game-project/assets/sprites/creatures/neon_bat\<newline>'' @
     ''  - Toy Trojan (TOY_TROJAN): C:/Users/purem/OneDrive/Documents/new-game-project/assets/sprites/creatures/toy_trojan\<newline>'' @
     ''  - Robo (ROBO): C:/Users/purem/OneDrive/Documents/new-game-project/assets/sprites/creatures/robo\<newline>'' @
     ''  - Froscola (FROSCOLA): C:/Users/purem/OneDrive/Documents/new-game-project/assets/sprites/creatures/froscola\<newline>'' @
     ''  - Grizzly (GRIZZLY): C:/Users/purem/OneDrive/Documents/new-game-project/assets/sprites/creatures/grizzly\<newline>'' @
     ''  - Blazin' Sparkinstone Bugs (BLAZIN_SPARKINSTONE_BUGS): C:/Users/purem/OneDrive/Documents/new-game-project/assets/sprites/creatures/blazin_sparkinstone_bugs\<newline>'' @
     ''  - Stoplight Ghost (STOPLIGHT_GHOST): C:/Users/purem/OneDrive/Documents/new-game-project/assets/sprites/creatures/stoplight_ghost\<newline>'' @
     ''  - Haunted River Rock (HAUNTED_RIVER_ROCK): C:/Users/purem/OneDrive/Documents/new-game-project/assets/sprites/creatures/haunted_river_rock\<newline>'' @
     ''  - Hedgehog (HEDGEHOG): C:/Users/purem/OneDrive/Documents/new-game-project/assets/sprites/creatures/hedgehog\<newline>'' @
     ''  - Delinquent Chick (DELINQUENT_CHICK): C:/Users/purem/OneDrive/Documents/new-game-project/assets/sprites/creatures/delinquent_chick\<newline>'' @
     ''  - Ooze Waste (OOZE_WASTE): C:/Users/purem/OneDrive/Documents/new-game-project/assets/sprites/creatures/ooze_waste\<newline>'' @
     ''  - Krip (KRIP): C:/Users/purem/OneDrive/Documents/new-game-project/assets/sprites/creatures/krip\<newline>'' @
     ''  - Grave Robber's Hunting Dog (GRAVE_ROBBER_HUNTING_DOG): C:/Users/purem/OneDrive/Documents/new-game-project/assets/sprites/creatures/grave_robber_hunting_dog\<newline>''\<close>
proof -
  have e: \<open>stdout empty_dirs_world = []\<close>
    by (simp add: empty_dirs_world_def)
  from main_prints_creature_lines [of sample_pathlib empty_dirs_world]
  have \<open>stdout (main sample_pathlib empty_dirs_world) =
     stdout empty_dirs_world @
     ''Due to Godot's resource format complexity, SpriteFrames should be created in Godot editor.\<newline>'' @
     ''However, we can still proceed by updating the global_enums.gd with placeholders.\<newline>'' @
     ''\<newline>Creatures to add:\<newline>'' @
     concat (map (\<lambda>(folder, display_name, enum_name).
       ''  - '' @ display_name @ '' ('' @ enum_name @ ''): '' @
       path_str sample_pathlib (joinpath sample_pathlib (BASE_PATH sample_pathlib) folder) @
       ''\<newline>'') CREATURES)\<close>
    by (rule conjunct1)
  then show ?thesis
    by (simp add: e CREATURES_def sample_pathlib_def BASE_PATH_def)
qed

section \<open>Effects of a run\<close>

text \<open>
  Claim C5. A run of the script writes no file: the world after the run is the world
  before it with the list of the creatures and their source paths added to standard
  output. The file system in particular is as it was.
\<close>

theorem main_only_prints:
  \<open>main pl w = w\<lparr>stdout := stdout w @ script_text pl\<rparr> \<and>
   filesystem (main pl w) = filesystem w\<close>
  by (simp add: main_eq)

theorem main_only_prints_witness:
  \<open>filesystem (main sample_pathlib example_world) ''d'' = Inr example_listing \<and>
   listdir_calls (main sample_pathlib example_world) = [] \<and>
   argv (main sample_pathlib example_world) = [] \<and>
   environ (main sample_pathlib example_world) = []\<close>
  using main_only_prints [of sample_pathlib example_world]
  by (simp add: example_world_def)

text \<open>
  Claim C8. The text a run prints is a function of the constants \<^verbatim>\<open>CREATURES\<close> and
  \<^verbatim>\<open>BASE_PATH\<close> (and of \<^verbatim>\<open>pathlib\<close>) only: any two runs print the same text,
  whatever the command line, the environment and the file system are.
\<close>

theorem printed_text_deterministic:
  \<open>printed_by_run pl w1 = printed_by_run pl w2 \<and>
   printed_by_run pl (w\<lparr>argv := a, environ := e\<rparr>) = printed_by_run pl w \<and>
   printed_by_run pl w = script_text pl\<close>
  by (simp add: printed_by_run_eq)

theorem printed_text_deterministic_witness:
  \<open>printed_by_run sample_pathlib
     (missing_dirs_world\<lparr>argv := [''--verbose''], environ := [(''HOME'', ''/root'')]\<rparr>) =
   printed_by_run sample_pathlib example_world\<close>
  using printed_text_deterministic
    [of sample_pathlib
      \<open>missing_dirs_world\<lparr>argv := [''--verbose''], environ := [(''HOME'', ''/root'')]\<rparr>\<close>
      example_world]
  by (rule conjunct1)

section \<open>What a run does for each creature\<close>




end
